theory Spec2Isabelle
  imports Complex_Main "HOL-Library.AList"
begin

section \<open>Values, dictionaries and reserved keys\<close>

text \<open>
  Python values that reach the attribute pipeline of \<^verbatim>\<open>logfire/_main.py\<close>.
  \<open>PyList\<close> is a list of strings (the declared type of the tags attribute,
  \<^verbatim>\<open>cast('list[str]', ...)\<close>), \<open>PyTuple\<close> a tuple of strings (what
  \<^verbatim>\<open>tuple(null_args)\<close> builds), \<open>PyObj\<close> any other structured value
  (dict, dataclass, ...), kept opaque.  Floats are modelled by their real value.
  A dict is an association list in insertion order; \<open>AList.update\<close> is
  \<^verbatim>\<open>d[k] = v\<close> (overwrite in place, or append), \<open>map_of\<close> is lookup.
\<close>

datatype 'a py_value =
    PyNone
  | PyBool bool
  | PyInt int
  | PyFloat real
  | PyStr string
  | PyList "string list"
  | PyTuple "string list"
  | PyObj 'a

type_synonym 'a py_dict = "(string \<times> 'a py_value) list"

datatype py_error = ValueError string | RuntimeError string | TypeError | KeyError string

text \<open>
  Modelled from the spec: the constants of \<^verbatim>\<open>logfire/_constants.py\<close>, which is not
  among the source files.  The spec (sections 3, 4.1 and 6) names the reserved keys
  and gives the integer bound \<open>2^63 - 1\<close>; the key strings below are pairwise
  distinct, which is all the development uses of them.
\<close>

definition ATTRIBUTES_MESSAGE_TEMPLATE_KEY :: string where
  "ATTRIBUTES_MESSAGE_TEMPLATE_KEY = ''logfire.msg_template''"

definition ATTRIBUTES_MESSAGE_KEY :: string where
  "ATTRIBUTES_MESSAGE_KEY = ''logfire.msg''"

definition ATTRIBUTES_TAGS_KEY :: string where
  "ATTRIBUTES_TAGS_KEY = ''logfire.tags''"

definition ATTRIBUTES_SAMPLE_RATE_KEY :: string where
  "ATTRIBUTES_SAMPLE_RATE_KEY = ''logfire.sample_rate''"

definition NULL_ARGS_KEY :: string where
  "NULL_ARGS_KEY = ''logfire.null_args''"

definition ATTRIBUTES_JSON_SCHEMA_KEY :: string where
  "ATTRIBUTES_JSON_SCHEMA_KEY = ''logfire.json_schema''"

definition ATTRIBUTES_VALIDATION_ERROR_KEY :: string where
  "ATTRIBUTES_VALIDATION_ERROR_KEY = ''exception.logfire.data''"

definition ATTRIBUTES_LOG_LEVEL_NAME_KEY :: string where
  "ATTRIBUTES_LOG_LEVEL_NAME_KEY = ''logfire.level_name''"

definition ATTRIBUTES_LOG_LEVEL_NUM_KEY :: string where
  "ATTRIBUTES_LOG_LEVEL_NUM_KEY = ''logfire.level_num''"

definition ATTRIBUTES_SPAN_TYPE_KEY :: string where
  "ATTRIBUTES_SPAN_TYPE_KEY = ''logfire.span_type''"

definition OTLP_MAX_INT_SIZE :: int where
  "OTLP_MAX_INT_SIZE = 2 ^ 63 - 1"

lemmas key_defs =
  ATTRIBUTES_MESSAGE_TEMPLATE_KEY_def ATTRIBUTES_MESSAGE_KEY_def ATTRIBUTES_TAGS_KEY_def
  ATTRIBUTES_SAMPLE_RATE_KEY_def NULL_ARGS_KEY_def ATTRIBUTES_JSON_SCHEMA_KEY_def
  ATTRIBUTES_VALIDATION_ERROR_KEY_def ATTRIBUTES_LOG_LEVEL_NAME_KEY_def
  ATTRIBUTES_LOG_LEVEL_NUM_KEY_def ATTRIBUTES_SPAN_TYPE_KEY_def

section \<open>Tag sets\<close>

text \<open>
  \<^verbatim>\<open>uniquify_sequence\<close>: the comprehension
  \<^verbatim>\<open>[x for x in seq if not (x in seen or seen_add(x))]\<close> walks the sequence once with
  the set \<open>seen\<close> of the elements already kept.
\<close>

fun uniquify_from :: "'a set \<Rightarrow> 'a list \<Rightarrow> 'a list" where
  "uniquify_from seen [] = []"
| "uniquify_from seen (x # xs) =
     (if x \<in> seen then uniquify_from seen xs else x # uniquify_from (insert x seen) xs)"

definition uniquify_sequence :: "'a list \<Rightarrow> 'a list" where
  "uniquify_sequence seq = uniquify_from {} seq"

text \<open>
  \<^verbatim>\<open>_merge_tags_into_attributes\<close>.  \<^verbatim>\<open>attributes[ATTRIBUTES_TAGS_KEY] + tags\<close>
  concatenates two lists; for any other left operand of the model (None, a number, a
  string, a tuple, a structured value) Python's \<^verbatim>\<open>+\<close> with a list raises TypeError.
  \<^verbatim>\<open>if res:\<close> is the test for a non-empty list.
\<close>

definition merge_tags_into_attributes ::
  "'a py_dict \<Rightarrow> string list \<Rightarrow> py_error + (string list option \<times> 'a py_dict)" where
  "merge_tags_into_attributes attributes tags =
     (case map_of attributes ATTRIBUTES_TAGS_KEY of
        Some (PyList existing) \<Rightarrow>
          (let res = existing @ tags;
               attributes' = filter (\<lambda>(k, v). k \<noteq> ATTRIBUTES_TAGS_KEY) attributes
           in if res \<noteq> [] then Inr (Some (uniquify_sequence res), attributes')
              else Inr (None, attributes'))
      | Some _ \<Rightarrow> Inl TypeError
      | None \<Rightarrow>
          (let res = tags
           in if res \<noteq> [] then Inr (Some (uniquify_sequence res), attributes)
              else Inr (None, attributes)))"

text \<open>
  The position of the first occurrence of \<open>x\<close> in \<open>xs\<close> (\<open>length xs\<close> when there is
  none): the yardstick for "order of first appearance".
\<close>

definition first_index :: "'a list \<Rightarrow> 'a \<Rightarrow> nat" where
  "first_index xs x = length (takeWhile (\<lambda>y. y \<noteq> x) xs)"

section \<open>Attribute encoding\<close>

text \<open>Python's \<^verbatim>\<open>str\<close> of an integer: decimal digits, a minus sign when negative.\<close>

definition digit_char :: "nat \<Rightarrow> char" where
  "digit_char d = ''0123456789'' ! d"

fun str_nat :: "nat \<Rightarrow> string" where
  "str_nat n = (if n < 10 then [digit_char n] else str_nat (n div 10) @ [digit_char (n mod 10)])"

declare str_nat.simps [simp del]

definition str_int :: "int \<Rightarrow> string" where
  "str_int i = (if i < 0 then CHR ''-'' # str_nat (nat (- i)) else str_nat (nat i))"

text \<open>
  \<^verbatim>\<open>user_attributes\<close>.  The loop state is \<open>(prepared, null_args, warnings)\<close>; the
  warnings list stands for the calls of \<^verbatim>\<open>warnings.warn\<close>, oldest first.  The
  structured-value encoder \<^verbatim>\<open>logfire_json_dumps\<close> is a parameter.  A Python
  \<^verbatim>\<open>bool\<close> is an \<^verbatim>\<open>int\<close> (0 or 1), so it takes the integer branch and is stored
  unchanged.
\<close>

definition int_too_large_warning :: "int \<Rightarrow> string" where
  "int_too_large_warning v =
     ''Integer value '' @ str_int v @ '' is larger than the maximum OTLP integer size of ''
       @ str_int OTLP_MAX_INT_SIZE
       @ '' (64-bits),  if you need support for sending larger integers, please open a feature request''"

type_synonym 'a encode_state = "'a py_dict \<times> string list \<times> string list"

fun user_attributes_step ::
  "('a py_value \<Rightarrow> string) \<Rightarrow> 'a encode_state \<Rightarrow> string \<times> 'a py_value \<Rightarrow> 'a encode_state" where
  "user_attributes_step dumps (prepared, null_args, ws) (key, PyNone) =
     (prepared, null_args @ [key], ws)"
| "user_attributes_step dumps (prepared, null_args, ws) (key, PyInt v) =
     (if v > OTLP_MAX_INT_SIZE
      then (AList.update key (PyStr (str_int v)) prepared, null_args,
            ws @ [int_too_large_warning v])
      else (AList.update key (PyInt v) prepared, null_args, ws))"
| "user_attributes_step dumps (prepared, null_args, ws) (key, PyBool b) =
     (AList.update key (PyBool b) prepared, null_args, ws)"
| "user_attributes_step dumps (prepared, null_args, ws) (key, PyStr s) =
     (AList.update key (PyStr s) prepared, null_args, ws)"
| "user_attributes_step dumps (prepared, null_args, ws) (key, PyFloat f) =
     (AList.update key (PyFloat f) prepared, null_args, ws)"
| "user_attributes_step dumps (prepared, null_args, ws) (key, v) =
     (AList.update key (PyStr (dumps v)) prepared, null_args, ws)"

definition user_attributes_loop ::
  "('a py_value \<Rightarrow> string) \<Rightarrow> 'a encode_state \<Rightarrow> 'a py_dict \<Rightarrow> 'a encode_state" where
  "user_attributes_loop dumps st attributes = foldl (user_attributes_step dumps) st attributes"

text \<open>The result is the encoded dict together with the warnings raised.\<close>

definition user_attributes ::
  "('a py_value \<Rightarrow> string) \<Rightarrow> 'a py_dict \<Rightarrow> 'a py_dict \<times> string list" where
  "user_attributes dumps attributes =
     (case user_attributes_loop dumps ([], [], []) attributes of
        (prepared, null_args, ws) \<Rightarrow>
          (if null_args \<noteq> [] then AList.update NULL_ARGS_KEY (PyTuple null_args) prepared
           else prepared, ws))"

text \<open>
  The tag sequence \<open>a ++ b\<close> of an optional existing tag attribute \<open>a\<close> and the scope
  tags \<open>b\<close>.
\<close>

definition tags_concat :: "string list option \<Rightarrow> string list \<Rightarrow> string list" where
  "tags_concat a b = (case a of None \<Rightarrow> b | Some existing \<Rightarrow> existing @ b)"

text \<open>The null-valued keys of a mapping, in the mapping's order.\<close>

definition null_keys :: "'a py_dict \<Rightarrow> string list" where
  "null_keys m = map fst (filter (\<lambda>(k, v). v = PyNone) m)"

section \<open>The underlying span handle\<close>

text \<open>
  The span handle of the tracing SDK is an external collaborator (spec, section 6): it
  supports \<^verbatim>\<open>set_attribute\<close>, \<^verbatim>\<open>set_status\<close>, \<^verbatim>\<open>record_exception\<close>,
  \<^verbatim>\<open>end\<close> and \<^verbatim>\<open>is_recording\<close>.  It is modelled as a record; a span records until it
  is ended, and every setter is dropped on a span that no longer records.
\<close>

datatype status_code = UNSET | OK | ERROR

datatype status = Status status_code "string option"

record frame =
  filename :: string
  frame_name :: string
  lineno :: nat

text \<open>
  What \<^verbatim>\<open>_exit_span\<close> reads of an exception value: \<^verbatim>\<open>str(exc_value)\<close>, whether it
  is an instance of \<^verbatim>\<open>Exception\<close> (rather than only of \<^verbatim>\<open>BaseException\<close>), the
  result of \<^verbatim>\<open>exc_value.json(include_url=False)\<close> when it is a pydantic
  \<^verbatim>\<open>ValidationError\<close>, and the stacks of its traceback.
\<close>

record py_exception =
  exc_str :: string
  exc_is_Exception :: bool
  exc_validation_json :: "string option"
  exc_stacks :: "frame list list"

record 'a span_event =
  ev_exception :: py_exception
  ev_attributes :: "'a py_dict"
  ev_escaped :: bool

record 'a otel_span =
  sp_name :: string
  sp_attributes :: "'a py_dict"
  sp_status :: status
  sp_events :: "'a span_event list"
  sp_start_time :: nat
  sp_end_time :: "nat option"

definition start_span :: "string \<Rightarrow> 'a py_dict \<Rightarrow> nat \<Rightarrow> 'a otel_span" where
  "start_span name attrs start =
     \<lparr>sp_name = name, sp_attributes = attrs, sp_status = Status UNSET None,
      sp_events = [], sp_start_time = start, sp_end_time = None\<rparr>"

definition is_recording :: "'a otel_span \<Rightarrow> bool" where
  "is_recording sp = (sp_end_time sp = None)"

definition set_status :: "status \<Rightarrow> 'a otel_span \<Rightarrow> 'a otel_span" where
  "set_status st sp = (if is_recording sp then sp\<lparr>sp_status := st\<rparr> else sp)"

definition set_attribute :: "string \<Rightarrow> 'a py_value \<Rightarrow> 'a otel_span \<Rightarrow> 'a otel_span" where
  "set_attribute key v sp =
     (if is_recording sp then sp\<lparr>sp_attributes := AList.update key v (sp_attributes sp)\<rparr> else sp)"

definition record_exception ::
  "py_exception \<Rightarrow> 'a py_dict \<Rightarrow> bool \<Rightarrow> 'a otel_span \<Rightarrow> 'a otel_span" where
  "record_exception e attrs escaped sp =
     (if is_recording sp
      then sp\<lparr>sp_events := sp_events sp
                 @ [\<lparr>ev_exception = e, ev_attributes = attrs, ev_escaped = escaped\<rparr>]\<rparr>
      else sp)"

definition end_span :: "nat \<Rightarrow> 'a otel_span \<Rightarrow> 'a otel_span" where
  "end_span t sp = (if is_recording sp then sp\<lparr>sp_end_time := Some t\<rparr> else sp)"

section \<open>Span exit\<close>

definition startswith :: "string \<Rightarrow> string \<Rightarrow> bool" where
  "startswith s p = (take (length p) s = p)"

definition endswith :: "string \<Rightarrow> string \<Rightarrow> bool" where
  "endswith s p = (length p \<le> length s \<and> drop (length s - length p) s = p)"

text \<open>\<^verbatim>\<open>_filter_frames\<close>, on the frames of one stack.\<close>

definition filter_frames :: "frame list \<Rightarrow> frame list" where
  "filter_frames frames =
     filter (\<lambda>f. \<not> (endswith (filename f) ''logfire/_main.py'' \<and> startswith (frame_name f) ''_''))
       frames"

definition OK_STATUS :: status where
  "OK_STATUS = Status OK None"

text \<open>
  \<^verbatim>\<open>_exit_span\<close>.  \<open>exc_type\<close> is \<^verbatim>\<open>exc_type.__name__\<close> when there is an exception
  type, \<open>exc_value\<close> the exception value; \<^verbatim>\<open>isinstance(None, Exception)\<close> is false.
  The serialiser \<^verbatim>\<open>json_dumps_traceback\<close> is a parameter.
\<close>

definition exit_span ::
  "(frame list list \<Rightarrow> string) \<Rightarrow> 'a otel_span \<Rightarrow> string option \<Rightarrow> py_exception option
     \<Rightarrow> 'a otel_span" where
  "exit_span json_dumps_traceback the_span exc_type exc_value =
     (if \<not> is_recording the_span then the_span
      else case (exc_type, exc_value) of
        (Some type_name, Some e) \<Rightarrow>
          (if exc_is_Exception e then
             (let the_span1 = set_status (Status ERROR (Some (type_name @ '': '' @ exc_str e))) the_span;
                  stacks = map filter_frames (exc_stacks e);
                  attrs = [(''exception.logfire.trace'', PyStr (json_dumps_traceback stacks))]
              in case exc_validation_json e of
                   Some err_json \<Rightarrow>
                     record_exception e
                       (AList.update ATTRIBUTES_VALIDATION_ERROR_KEY (PyStr err_json) attrs) True
                       (set_attribute ATTRIBUTES_VALIDATION_ERROR_KEY (PyStr err_json) the_span1)
                 | None \<Rightarrow> record_exception e attrs True the_span1)
           else set_status OK_STATUS the_span)
      | _ \<Rightarrow> set_status OK_STATUS the_span)"

section \<open>LogfireSpan\<close>

record 'a format_args =
  fa_format_string :: string
  fa_kwargs :: "'a py_dict"
  fa_stacklevel :: int

text \<open>
  The fields of \<^verbatim>\<open>LogfireSpan\<close>: \<open>ls_span\<close> is \<^verbatim>\<open>self._span\<close> (\<open>None\<close> until the
  span is started), \<open>ls_token\<close> is \<^verbatim>\<open>self._token\<close>.  The tracer is the function
  \<open>start_span\<close> above.
\<close>

record 'a LogfireSpan =
  ls_span_name :: string
  ls_otlp_attributes :: "'a py_dict"
  ls_end_on_exit :: bool
  ls_token :: "nat option"
  ls_format_args :: "'a format_args"
  ls_span :: "'a otel_span option"

text \<open>\<^verbatim>\<open>LogfireSpan.__init__\<close>.\<close>

definition LogfireSpan_init :: "string \<Rightarrow> 'a py_dict \<Rightarrow> 'a format_args \<Rightarrow> 'a LogfireSpan" where
  "LogfireSpan_init name otlp_attributes fargs =
     \<lparr>ls_span_name = name, ls_otlp_attributes = otlp_attributes, ls_end_on_exit = True,
      ls_token = None, ls_format_args = fargs, ls_span = None\<rparr>"

text \<open>
  \<^verbatim>\<open>LogfireSpan.__enter__\<close>; \<open>now\<close> is the clock at the call and \<open>token\<close> the token
  that \<^verbatim>\<open>context_api.attach\<close> hands out.
\<close>

definition LogfireSpan_enter :: "nat \<Rightarrow> nat \<Rightarrow> 'a LogfireSpan \<Rightarrow> 'a LogfireSpan" where
  "LogfireSpan_enter now token self =
     self\<lparr>ls_end_on_exit := True,
          ls_span := (case ls_span self of
                        None \<Rightarrow> Some (start_span (ls_span_name self) (ls_otlp_attributes self) now)
                      | Some sp \<Rightarrow> Some sp),
          ls_token := (case ls_token self of None \<Rightarrow> Some token | Some t \<Rightarrow> Some t)\<rparr>"

text \<open>\<^verbatim>\<open>LogfireSpan.end\<close>; \<open>now\<close> is the clock at the call.\<close>

definition LogfireSpan_end :: "nat \<Rightarrow> 'a LogfireSpan \<Rightarrow> py_error + 'a LogfireSpan" where
  "LogfireSpan_end now self =
     (case ls_span self of
        None \<Rightarrow> Inl (RuntimeError ''Span has not been started'')
      | Some sp \<Rightarrow>
          (if is_recording sp then Inr (self\<lparr>ls_span := Some (end_span now sp)\<rparr>)
           else Inr self))"

section \<open>The Logfire class\<close>

text \<open>
  \<^verbatim>\<open>{**a, **b}\<close>: the items of \<open>b\<close> are stored into \<open>a\<close> one by one.
\<close>

definition dict_merge :: "'a py_dict \<Rightarrow> 'a py_dict \<Rightarrow> 'a py_dict" where
  "dict_merge a b = foldl (\<lambda>d (k, v). AList.update k v d) a b"

text \<open>Python's \<^verbatim>\<open>v == 1\<close>: true for the integer 1, the float 1.0 and \<^verbatim>\<open>True\<close>.\<close>

fun py_eq_1 :: "'a py_value \<Rightarrow> bool" where
  "py_eq_1 (PyInt i) = (i = 1)"
| "py_eq_1 (PyFloat f) = (f = 1)"
| "py_eq_1 (PyBool b) = b"
| "py_eq_1 _ = False"

text \<open>
  The fields \<^verbatim>\<open>_tags\<close> and \<^verbatim>\<open>_sample_rate\<close> of a \<^verbatim>\<open>Logfire\<close> instance (the
  configuration object is not modelled; what the methods read of it is in the record of
  collaborators below).
\<close>

record Logfire =
  self_tags :: "string list"
  self_sample_rate :: "real option"

text \<open>
  The collaborators the methods call: \<^verbatim>\<open>get_caller_stack_info\<close> (by stack level),
  \<^verbatim>\<open>logfire_format\<close> (template and keyword arguments to message),
  \<^verbatim>\<open>logfire_json_schema\<close>, \<^verbatim>\<open>logfire_json_dumps\<close>, the table
  \<^verbatim>\<open>LEVEL_NUMBERS\<close> of \<^verbatim>\<open>_constants.py\<close> (not among the source files, and the spec
  gives no numbers, so it is a parameter) and the value \<^verbatim>\<open>ns_timestamp_generator()\<close>
  returns at the call.
\<close>

record 'a collaborators =
  get_caller_stack_info :: "int \<Rightarrow> 'a py_dict"
  logfire_format :: "string \<Rightarrow> 'a py_dict \<Rightarrow> string"
  logfire_json_schema :: "'a py_dict \<Rightarrow> string option"
  logfire_json_dumps :: "'a py_value \<Rightarrow> string"
  LEVEL_NUMBERS :: "(string \<times> int) list"
  ns_timestamp_generator :: nat

text \<open>
  The effects of a call: the warnings raised through \<^verbatim>\<open>warnings.warn\<close> and the spans
  handed to the logs tracer, both oldest first.
\<close>

record 'a world =
  w_warnings :: "string list"
  w_spans :: "'a otel_span list"

text \<open>\<^verbatim>\<open>Logfire.with_trace_sample_rate\<close>.\<close>

definition Logfire_with_trace_sample_rate :: "Logfire \<Rightarrow> real \<Rightarrow> py_error + Logfire" where
  "Logfire_with_trace_sample_rate self sample_rate =
     (if sample_rate > 1 \<or> sample_rate < 0
      then Inl (ValueError ''sample_rate must be between 0 and 1'')
      else Inr \<lparr>self_tags = self_tags self, self_sample_rate = Some sample_rate\<rparr>)"

text \<open>
  \<^verbatim>\<open>Logfire.log\<close>.  The result is the exception raised, if any, and the world after the
  call.  \<^verbatim>\<open>trace_api.use_span(span, end_on_exit=False, record_exception=False)\<close> only
  makes the span current around the two calls in its body.
\<close>

definition Logfire_log ::
  "'a collaborators \<Rightarrow> Logfire \<Rightarrow> string \<Rightarrow> string \<Rightarrow> 'a py_dict \<Rightarrow> int \<Rightarrow> 'a world
     \<Rightarrow> (py_error + unit) \<times> 'a world" where
  "Logfire_log X self level msg_template attributes stack_offset w =
     (let (level, w) =
            (if map_of (LEVEL_NUMBERS X) level = None
             then (''error'', w\<lparr>w_warnings := w_warnings w @ [''Invalid log level'']\<rparr>)
             else (level, w))
      in case map_of (LEVEL_NUMBERS X) level of
        None \<Rightarrow> (Inl (KeyError level), w)
      | Some level_no \<Rightarrow>
          (let stacklevel = stack_offset + 2;
               stack_info = get_caller_stack_info X stacklevel;
               merged_attributes = dict_merge stack_info attributes
           in case merge_tags_into_attributes merged_attributes (self_tags self) of
             Inl e \<Rightarrow> (Inl e, w)
           | Inr (tags, merged_attributes) \<Rightarrow>
               (let msg = logfire_format X msg_template merged_attributes;
                    (otlp_attributes, ws) = user_attributes (logfire_json_dumps X) merged_attributes;
                    w = w\<lparr>w_warnings := w_warnings w @ ws\<rparr>;
                    otlp_attributes =
                      dict_merge
                        [(ATTRIBUTES_SPAN_TYPE_KEY, PyStr ''log''),
                         (ATTRIBUTES_LOG_LEVEL_NAME_KEY, PyStr level),
                         (ATTRIBUTES_LOG_LEVEL_NUM_KEY, PyInt level_no),
                         (ATTRIBUTES_MESSAGE_TEMPLATE_KEY, PyStr msg_template),
                         (ATTRIBUTES_MESSAGE_KEY, PyStr msg)]
                        otlp_attributes;
                    otlp_attributes =
                      (case logfire_json_schema X attributes of
                         None \<Rightarrow> otlp_attributes
                       | Some attributes_json_schema \<Rightarrow>
                           (if attributes_json_schema \<noteq> []
                            then AList.update ATTRIBUTES_JSON_SCHEMA_KEY
                                   (PyStr attributes_json_schema) otlp_attributes
                            else otlp_attributes));
                    otlp_attributes =
                      (case tags of
                         None \<Rightarrow> otlp_attributes
                       | Some ts \<Rightarrow>
                           (if ts \<noteq> []
                            then AList.update ATTRIBUTES_TAGS_KEY (PyList ts) otlp_attributes
                            else otlp_attributes));
                    (sample_rate, otlp_attributes) =
                      (case self_sample_rate self of
                         Some r \<Rightarrow> (Some (PyFloat r), otlp_attributes)
                       | None \<Rightarrow> (map_of otlp_attributes ATTRIBUTES_SAMPLE_RATE_KEY,
                                  AList.delete ATTRIBUTES_SAMPLE_RATE_KEY otlp_attributes));
                    otlp_attributes =
                      (case sample_rate of
                         None \<Rightarrow> otlp_attributes
                       | Some r \<Rightarrow>
                           (if \<not> py_eq_1 r
                            then AList.update ATTRIBUTES_SAMPLE_RATE_KEY r otlp_attributes
                            else otlp_attributes));
                    start_time = ns_timestamp_generator X;
                    sp = start_span msg otlp_attributes start_time;
                    sp = set_status OK_STATUS sp;
                    sp = end_span start_time sp
                in (Inr (), w\<lparr>w_spans := w_spans w @ [sp]\<rparr>))))"

text \<open>
  \<^verbatim>\<open>Logfire._span\<close>.  It builds an unstarted \<^verbatim>\<open>LogfireSpan\<close>; the only effect is
  the warnings of the attribute encoder.
\<close>

definition Logfire_private_span ::
  "'a collaborators \<Rightarrow> Logfire \<Rightarrow> string \<Rightarrow> 'a py_dict \<Rightarrow> string option \<Rightarrow> int \<Rightarrow> bool
     \<Rightarrow> 'a world \<Rightarrow> (py_error + 'a LogfireSpan) \<times> 'a world" where
  "Logfire_private_span X self msg_template attributes span_name stacklevel decorator w =
     (let stack_info = get_caller_stack_info X stacklevel;
          merged_attributes = dict_merge stack_info attributes;
          merged_attributes =
            AList.update ATTRIBUTES_MESSAGE_TEMPLATE_KEY (PyStr msg_template) merged_attributes
      in case merge_tags_into_attributes merged_attributes (self_tags self) of
        Inl e \<Rightarrow> (Inl e, w)
      | Inr (tags, merged_attributes) \<Rightarrow>
          (let the_span_name = (case span_name of Some n \<Rightarrow> n | None \<Rightarrow> msg_template);
               format_kwargs = dict_merge [(''span_name'', PyStr the_span_name)] merged_attributes;
               log_message = logfire_format X msg_template format_kwargs;
               merged_attributes =
                 AList.update ATTRIBUTES_MESSAGE_KEY (PyStr log_message) merged_attributes;
               (otlp_attributes, ws) = user_attributes (logfire_json_dumps X) merged_attributes;
               w = w\<lparr>w_warnings := w_warnings w @ ws\<rparr>;
               otlp_attributes =
                 (case logfire_json_schema X attributes of
                    None \<Rightarrow> otlp_attributes
                  | Some attributes_json_schema \<Rightarrow>
                      (if attributes_json_schema \<noteq> []
                       then AList.update ATTRIBUTES_JSON_SCHEMA_KEY
                              (PyStr attributes_json_schema) otlp_attributes
                       else otlp_attributes));
               otlp_attributes =
                 (case tags of
                    None \<Rightarrow> otlp_attributes
                  | Some ts \<Rightarrow>
                      (if ts \<noteq> []
                       then AList.update ATTRIBUTES_TAGS_KEY (PyList ts) otlp_attributes
                       else otlp_attributes));
               (sample_rate, otlp_attributes) =
                 (case self_sample_rate self of
                    Some r \<Rightarrow> (Some (PyFloat r), otlp_attributes)
                  | None \<Rightarrow> (map_of otlp_attributes ATTRIBUTES_SAMPLE_RATE_KEY,
                             AList.delete ATTRIBUTES_SAMPLE_RATE_KEY otlp_attributes));
               otlp_attributes =
                 (case sample_rate of
                    None \<Rightarrow> otlp_attributes
                  | Some r \<Rightarrow>
                      (if \<not> py_eq_1 r
                       then AList.update ATTRIBUTES_SAMPLE_RATE_KEY r otlp_attributes
                       else otlp_attributes));
               exit_stacklevel = stacklevel + (if decorator then 2 else 1)
           in (Inr (LogfireSpan_init the_span_name otlp_attributes
                      \<lparr>fa_format_string = msg_template, fa_kwargs = merged_attributes,
                       fa_stacklevel = exit_stacklevel\<rparr>),
               w)))"

text \<open>
  The check \<^verbatim>\<open>any(k.startswith('_') for k in attributes)\<close> of the public methods.
\<close>

definition any_underscore_key :: "'a py_dict \<Rightarrow> bool" where
  "any_underscore_key attributes = list_ex (\<lambda>(k, v). startswith k ''_'') attributes"

definition underscore_error :: py_error where
  "underscore_error = ValueError ''Attribute keys cannot start with an underscore.''"

text \<open>\<^verbatim>\<open>Logfire.span\<close>.\<close>

definition Logfire_span ::
  "'a collaborators \<Rightarrow> Logfire \<Rightarrow> string \<Rightarrow> string option \<Rightarrow> 'a py_dict \<Rightarrow> 'a world
     \<Rightarrow> (py_error + 'a LogfireSpan) \<times> 'a world" where
  "Logfire_span X self msg_template span_name attributes w =
     (if any_underscore_key attributes then (Inl underscore_error, w)
      else Logfire_private_span X self msg_template attributes span_name 3 False w)"

text \<open>
  The level methods \<^verbatim>\<open>trace\<close>, \<^verbatim>\<open>debug\<close>, \<^verbatim>\<open>info\<close>, \<^verbatim>\<open>notice\<close>, \<^verbatim>\<open>warn\<close>,
  \<^verbatim>\<open>error\<close> and \<^verbatim>\<open>fatal\<close>.
\<close>

definition Logfire_trace ::
  "'a collaborators \<Rightarrow> Logfire \<Rightarrow> string \<Rightarrow> 'a py_dict \<Rightarrow> 'a world \<Rightarrow> (py_error + unit) \<times> 'a world" where
  "Logfire_trace X self msg_template attributes w =
     (if any_underscore_key attributes then (Inl underscore_error, w)
      else Logfire_log X self ''trace'' msg_template attributes 1 w)"

definition Logfire_debug ::
  "'a collaborators \<Rightarrow> Logfire \<Rightarrow> string \<Rightarrow> 'a py_dict \<Rightarrow> 'a world \<Rightarrow> (py_error + unit) \<times> 'a world" where
  "Logfire_debug X self msg_template attributes w =
     (if any_underscore_key attributes then (Inl underscore_error, w)
      else Logfire_log X self ''debug'' msg_template attributes 1 w)"

definition Logfire_info ::
  "'a collaborators \<Rightarrow> Logfire \<Rightarrow> string \<Rightarrow> 'a py_dict \<Rightarrow> 'a world \<Rightarrow> (py_error + unit) \<times> 'a world" where
  "Logfire_info X self msg_template attributes w =
     (if any_underscore_key attributes then (Inl underscore_error, w)
      else Logfire_log X self ''info'' msg_template attributes 1 w)"

definition Logfire_notice ::
  "'a collaborators \<Rightarrow> Logfire \<Rightarrow> string \<Rightarrow> 'a py_dict \<Rightarrow> 'a world \<Rightarrow> (py_error + unit) \<times> 'a world" where
  "Logfire_notice X self msg_template attributes w =
     (if any_underscore_key attributes then (Inl underscore_error, w)
      else Logfire_log X self ''notice'' msg_template attributes 1 w)"

definition Logfire_warn ::
  "'a collaborators \<Rightarrow> Logfire \<Rightarrow> string \<Rightarrow> 'a py_dict \<Rightarrow> 'a world \<Rightarrow> (py_error + unit) \<times> 'a world" where
  "Logfire_warn X self msg_template attributes w =
     (if any_underscore_key attributes then (Inl underscore_error, w)
      else Logfire_log X self ''warn'' msg_template attributes 1 w)"

definition Logfire_error ::
  "'a collaborators \<Rightarrow> Logfire \<Rightarrow> string \<Rightarrow> 'a py_dict \<Rightarrow> 'a world \<Rightarrow> (py_error + unit) \<times> 'a world" where
  "Logfire_error X self msg_template attributes w =
     (if any_underscore_key attributes then (Inl underscore_error, w)
      else Logfire_log X self ''error'' msg_template attributes 1 w)"

definition Logfire_fatal ::
  "'a collaborators \<Rightarrow> Logfire \<Rightarrow> string \<Rightarrow> 'a py_dict \<Rightarrow> 'a world \<Rightarrow> (py_error + unit) \<times> 'a world" where
  "Logfire_fatal X self msg_template attributes w =
     (if any_underscore_key attributes then (Inl underscore_error, w)
      else Logfire_log X self ''fatal'' msg_template attributes 1 w)"

section \<open>The resilient exporter\<close>

text \<open>
  Modelled from the spec: \<^verbatim>\<open>FallbackSpanExporter\<close>
  (\<^verbatim>\<open>logfire/_internal/exporters/fallback.py\<close>) and the recording sink
  \<^verbatim>\<open>TestExporter\<close> (\<^verbatim>\<open>logfire/testing.py\<close>) are not among the source files; only
  their test is.  A sink is a state and an export function that answers with an
  exception or a result.  Following section 4.6 of the spec: the primary sink is tried
  first; when it raises, the fallback sink is given the same batch and the exception is
  raised again; when it returns a failure result, the fallback sink is given the batch
  and the call returns success; otherwise the primary's result is returned and the
  fallback sink is not used.  The spec does not consult the fallback sink's own answer.
\<close>

datatype SpanExportResult = SUCCESS | FAILURE

type_synonym ('s, 'b, 'e) sink = "'s \<Rightarrow> 'b list \<Rightarrow> ('e + SpanExportResult) \<times> 's"

definition FallbackSpanExporter_export ::
  "('p, 'b, 'e) sink \<Rightarrow> ('f, 'b, 'e) sink \<Rightarrow> 'p \<times> 'f \<Rightarrow> 'b list
     \<Rightarrow> ('e + SpanExportResult) \<times> ('p \<times> 'f)" where
  "FallbackSpanExporter_export exporter fallback st spans =
     (case st of (ps, fs) \<Rightarrow>
        (case exporter ps spans of
           (Inl e, ps') \<Rightarrow> (Inl e, (ps', snd (fallback fs spans)))
         | (Inr FAILURE, ps') \<Rightarrow> (Inr SUCCESS, (ps', snd (fallback fs spans)))
         | (Inr SUCCESS, ps') \<Rightarrow> (Inr SUCCESS, (ps', fs))))"

text \<open>
  Modelled from the spec: the recording sink keeps every span it is given, in order
  (the state is \<^verbatim>\<open>exported_spans\<close>), and returns success.
\<close>

definition TestExporter_export :: "('b list, 'b, 'e) sink" where
  "TestExporter_export exported_spans spans = (Inr SUCCESS, exported_spans @ spans)"

text \<open>
  The sinks and the span of \<^verbatim>\<open>tests/exporters/test_fallback_exporter.py\<close>.  The
  message of the exception is written without its final emoji.
\<close>

definition ExceptionExporter_export :: "(unit, 'b, string) sink" where
  "ExceptionExporter_export s spans = (Inl ''Bad, bad exporter'', s)"

definition FailureExporter_export :: "(unit, 'b, string) sink" where
  "FailureExporter_export s spans = (Inr FAILURE, s)"

record span_context =
  trace_id :: nat
  span_id :: nat
  is_remote :: bool

record readable_span =
  rs_name :: string
  rs_context :: span_context
  rs_parent :: "span_context option"
  rs_start_time :: nat
  rs_end_time :: nat
  rs_attributes :: "unit py_dict"

definition TEST_SPAN :: readable_span where
  "TEST_SPAN =
     \<lparr>rs_name = ''test'',
      rs_context = \<lparr>trace_id = 1, span_id = 1, is_remote = False\<rparr>,
      rs_parent = None, rs_start_time = 0, rs_end_time = 1, rs_attributes = []\<rparr>"

section \<open>Worked examples\<close>

text \<open>
  Collaborators for the worked examples: no stack information, the template as the
  message, no JSON schema, \<open>{}\<close> for every structured value, \<open>[]\<close> for every
  traceback, seven level names and the clock at 0.
\<close>

definition example_json_dumps :: "unit py_value \<Rightarrow> string" where
  "example_json_dumps v = ''{}''"

definition example_traceback_dumps :: "frame list list \<Rightarrow> string" where
  "example_traceback_dumps stacks = ''[]''"

definition example_collaborators :: "unit collaborators" where
  "example_collaborators =
     \<lparr>get_caller_stack_info = (\<lambda>n. []),
      logfire_format = (\<lambda>template kw. template),
      logfire_json_schema = (\<lambda>attrs. None),
      logfire_json_dumps = example_json_dumps,
      LEVEL_NUMBERS = [(''trace'', 1), (''debug'', 5), (''info'', 9), (''notice'', 10),
                       (''warn'', 13), (''error'', 17), (''fatal'', 21)],
      ns_timestamp_generator = 0\<rparr>"

definition empty_world :: "unit world" where
  "empty_world = \<lparr>w_warnings = [], w_spans = []\<rparr>"

text \<open>An exception \<^verbatim>\<open>ValueError('boom')\<close>, a cancellation, and a span ended early.\<close>

definition boom :: py_exception where
  "boom = \<lparr>exc_str = ''boom'', exc_is_Exception = True, exc_validation_json = None,
           exc_stacks = []\<rparr>"

definition cancelled :: py_exception where
  "cancelled = \<lparr>exc_str = '''', exc_is_Exception = False, exc_validation_json = None,
                exc_stacks = []\<rparr>"

definition live_span :: "unit otel_span" where
  "live_span = start_span ''work'' [] 0"

definition ended_span :: "unit otel_span" where
  "ended_span = end_span 1 (start_span ''work'' [] 0)"

text \<open>A span record that has not been started.\<close>

definition example_span :: "unit LogfireSpan" where
  "example_span =
     LogfireSpan_init ''work'' []
       \<lparr>fa_format_string = ''work'', fa_kwargs = [], fa_stacklevel = 4\<rparr>"


text \<open>
  \<^verbatim>\<open>Logfire()\<close> with no tags and no sample rate, and \<^verbatim>\<open>Logfire(sample_rate=1)\<close>,
  which is also what \<^verbatim>\<open>with_trace_sample_rate(1)\<close> returns.
\<close>

definition plain_logfire :: Logfire where
  "plain_logfire = \<lparr>self_tags = [], self_sample_rate = None\<rparr>"

definition unit_rate_logfire :: Logfire where
  "unit_rate_logfire = \<lparr>self_tags = [], self_sample_rate = Some 1\<rparr>"

section \<open>Properties of tag merging\<close>

lemma set_uniquify_from: "set (uniquify_from seen xs) = set xs - seen"
  by (induction xs arbitrary: seen) auto

lemma distinct_uniquify_from: "distinct (uniquify_from seen xs)"
  by (induction xs arbitrary: seen) (auto simp: set_uniquify_from)

lemma uniquify_from_append:
  "uniquify_from seen (xs @ ys) = uniquify_from seen xs @ uniquify_from (seen \<union> set xs) ys"
  by (induction xs arbitrary: seen) (auto simp: insert_absorb)

lemma uniquify_from_is_filter:
  "uniquify_from seen xs = filter (\<lambda>x. x \<notin> seen) (uniquify_from {} xs)"
proof (induction xs arbitrary: seen rule: rev_induct)
  case Nil
  then show ?case by simp
next
  case (snoc x xs)
  show ?case
    using snoc[of seen]
    by (auto simp: uniquify_from_append set_uniquify_from)
qed

lemma first_index_Cons:
  "first_index (x # xs) y = (if y = x then 0 else Suc (first_index xs y))"
  by (auto simp: first_index_def)

lemma uniquify_from_first_index:
  "sorted_wrt (\<lambda>x y. first_index xs x < first_index xs y) (uniquify_from seen xs)"
proof (induction xs arbitrary: seen)
  case Nil
  then show ?case by simp
next
  case (Cons a xs)
  have tail: "sorted_wrt (\<lambda>x y. first_index (a # xs) x < first_index (a # xs) y)
                (uniquify_from (insert a seen) xs)"
  proof (rule sorted_wrt_mono_rel[OF _ Cons.IH[of "insert a seen"]])
    fix x y
    assume "x \<in> set (uniquify_from (insert a seen) xs)"
       and "y \<in> set (uniquify_from (insert a seen) xs)"
       and "first_index xs x < first_index xs y"
    then show "first_index (a # xs) x < first_index (a # xs) y"
      by (auto simp: set_uniquify_from first_index_Cons)
  qed
  show ?case
  proof (cases "a \<in> seen")
    case True
    then show ?thesis using tail by (simp add: insert_absorb)
  next
    case False
    then show ?thesis using tail
      by (auto simp: set_uniquify_from first_index_Cons)
  qed
qed

lemma uniquify_sequence_facts:
  "distinct (uniquify_sequence xs)"
  "set (uniquify_sequence xs) = set xs"
  "sorted_wrt (\<lambda>x y. first_index xs x < first_index xs y) (uniquify_sequence xs)"
  "uniquify_sequence (xs @ ys) =
     uniquify_sequence xs @ filter (\<lambda>x. x \<notin> set xs) (uniquify_sequence ys)"
  "uniquify_sequence xs = [] \<longleftrightarrow> xs = []"
proof -
  show "distinct (uniquify_sequence xs)"
    by (simp add: uniquify_sequence_def distinct_uniquify_from)
  show s: "set (uniquify_sequence xs) = set xs"
    by (simp add: uniquify_sequence_def set_uniquify_from)
  show "sorted_wrt (\<lambda>x y. first_index xs x < first_index xs y) (uniquify_sequence xs)"
    by (simp add: uniquify_sequence_def uniquify_from_first_index)
  show "uniquify_sequence (xs @ ys) =
     uniquify_sequence xs @ filter (\<lambda>x. x \<notin> set xs) (uniquify_sequence ys)"
    unfolding uniquify_sequence_def uniquify_from_append
    using uniquify_from_is_filter[of "set xs" ys] by simp
  show "uniquify_sequence xs = [] \<longleftrightarrow> xs = []"
    using s by (metis set_empty)
qed

lemma merge_tags_into_attributes_result:
  assumes "map_of attributes ATTRIBUTES_TAGS_KEY = map_option PyList a"
  shows "merge_tags_into_attributes attributes b =
           Inr (if tags_concat a b = [] then None else Some (uniquify_sequence (tags_concat a b)),
                filter (\<lambda>(k, v). k \<noteq> ATTRIBUTES_TAGS_KEY) attributes)"
proof (cases a)
  case None
  have "filter (\<lambda>(k, v). k \<noteq> ATTRIBUTES_TAGS_KEY) attributes = attributes"
    using assms None by (auto simp: filter_id_conv map_of_eq_None_iff image_iff)
  then show ?thesis
    using assms None by (simp add: merge_tags_into_attributes_def tags_concat_def)
next
  case (Some existing)
  then show ?thesis
    using assms by (simp add: merge_tags_into_attributes_def tags_concat_def Let_def)
qed

text \<open>
  C5.  For an optional existing tag attribute \<open>a\<close> (a list of strings stored under the
  tags key, or no such key) and scope tags \<open>b\<close>, \<^verbatim>\<open>_merge_tags_into_attributes\<close>
  returns no tags exactly when \<open>a ++ b\<close> is empty (so merging no attribute with no tags
  gives none), and otherwise the deduplication of \<open>a ++ b\<close>: no element twice, the
  same elements as \<open>a ++ b\<close>, ordered by first occurrence in \<open>a ++ b\<close>, the
  deduplicated existing values first.  The tags key is removed from the attributes.
\<close>

theorem merge_tags_first_occurrence:
  assumes "map_of attributes ATTRIBUTES_TAGS_KEY = map_option PyList a"
  shows "merge_tags_into_attributes attributes b =
           Inr (if tags_concat a b = [] then None else Some (uniquify_sequence (tags_concat a b)),
                filter (\<lambda>(k, v). k \<noteq> ATTRIBUTES_TAGS_KEY) attributes)
         \<and> distinct (uniquify_sequence (tags_concat a b))
         \<and> set (uniquify_sequence (tags_concat a b)) = set (tags_concat a b)
         \<and> sorted_wrt (\<lambda>x y. first_index (tags_concat a b) x < first_index (tags_concat a b) y)
              (uniquify_sequence (tags_concat a b))
         \<and> (\<forall>existing. a = Some existing \<longrightarrow>
               uniquify_sequence (tags_concat a b) =
                 uniquify_sequence existing
                   @ filter (\<lambda>x. x \<notin> set existing) (uniquify_sequence b))"
  using merge_tags_into_attributes_result[OF assms, of b]
  by (auto simp: uniquify_sequence_facts tags_concat_def)

theorem merge_tags_first_occurrence_witness:
  "merge_tags_into_attributes
     [(''n'', PyInt 1), (ATTRIBUTES_TAGS_KEY, PyList [''x'', ''y'', ''x''] :: unit py_value)]
     [''y'', ''z''] = Inr (Some [''x'', ''y'', ''z''], [(''n'', PyInt 1)])
   \<and> merge_tags_into_attributes [(''n'', PyInt 1 :: unit py_value)] [] = Inr (None, [(''n'', PyInt 1)])"
proof -
  have h1: "map_of [(''n'', PyInt 1), (ATTRIBUTES_TAGS_KEY, PyList [''x'', ''y'', ''x''] :: unit py_value)]
              ATTRIBUTES_TAGS_KEY = map_option PyList (Some [''x'', ''y'', ''x''])"
    by (simp add: ATTRIBUTES_TAGS_KEY_def)
  have h2: "map_of [(''n'', PyInt 1 :: unit py_value)] ATTRIBUTES_TAGS_KEY = map_option PyList None"
    by (simp add: ATTRIBUTES_TAGS_KEY_def)
  show ?thesis
    using merge_tags_first_occurrence[OF h1, of "[''y'', ''z'']"]
          merge_tags_first_occurrence[OF h2, of "[]"]
    by (simp add: tags_concat_def uniquify_sequence_def ATTRIBUTES_TAGS_KEY_def)
qed

section \<open>Properties of attribute encoding\<close>

lemma step_null_args:
  "fst (snd (user_attributes_step dumps (p, n, w) (k, v))) = (if v = PyNone then n @ [k] else n)"
  by (cases v) auto

lemma step_keys:
  "fst ` set (fst (user_attributes_step dumps (p, n, w) (k, v))) =
     (if v = PyNone then fst ` set p else insert k (fst ` set p))"
  by (cases v) (auto simp: dom_update)

lemma set_update_subset: "set (AList.update k v al) \<subseteq> insert (k, v) (set al)"
  by (induction al) auto

lemma step_no_none:
  "PyNone \<notin> snd ` set p \<Longrightarrow> PyNone \<notin> snd ` set (fst (user_attributes_step dumps (p, n, w) (k, v)))"
  using set_update_subset by (cases v) (fastforce split: if_splits)+

lemma step_distinct:
  "distinct (map fst p) \<Longrightarrow> distinct (map fst (fst (user_attributes_step dumps (p, n, w) (k, v))))"
  by (cases v) (auto simp: distinct_update)

lemma loop_null_args:
  "fst (snd (user_attributes_loop dumps (p, n, w) m)) = n @ null_keys m"
proof (induction m arbitrary: p n w)
  case Nil
  then show ?case by (simp add: user_attributes_loop_def null_keys_def)
next
  case (Cons kv m)
  obtain k v where kv: "kv = (k, v)" by (cases kv)
  obtain p' n' w' where st: "user_attributes_step dumps (p, n, w) (k, v) = (p', n', w')"
    by (cases "user_attributes_step dumps (p, n, w) (k, v)")
  have "n' = (if v = PyNone then n @ [k] else n)"
    using step_null_args[of dumps p n w k v] st by simp
  then show ?case
    using Cons.IH[of p' n' w'] kv st
    by (simp add: user_attributes_loop_def null_keys_def)
qed

lemma loop_keys:
  "fst ` set (fst (user_attributes_loop dumps (p, n, w) m)) =
     fst ` set p \<union> {k. \<exists>v. (k, v) \<in> set m \<and> v \<noteq> PyNone}"
proof (induction m arbitrary: p n w)
  case Nil
  then show ?case by (simp add: user_attributes_loop_def)
next
  case (Cons kv m)
  obtain k v where kv: "kv = (k, v)" by (cases kv)
  obtain p' n' w' where st: "user_attributes_step dumps (p, n, w) (k, v) = (p', n', w')"
    by (cases "user_attributes_step dumps (p, n, w) (k, v)")
  have "fst ` set p' = (if v = PyNone then fst ` set p else insert k (fst ` set p))"
    using step_keys[of dumps p n w k v] st by simp
  then show ?case
    using Cons.IH[of p' n' w'] kv st
    by (auto simp: user_attributes_loop_def)
qed

lemma loop_no_none:
  "PyNone \<notin> snd ` set p \<Longrightarrow> PyNone \<notin> snd ` set (fst (user_attributes_loop dumps (p, n, w) m))"
proof (induction m arbitrary: p n w)
  case Nil
  then show ?case by (simp add: user_attributes_loop_def)
next
  case (Cons kv m)
  obtain k v where kv: "kv = (k, v)" by (cases kv)
  obtain p' n' w' where st: "user_attributes_step dumps (p, n, w) (k, v) = (p', n', w')"
    by (cases "user_attributes_step dumps (p, n, w) (k, v)")
  have "PyNone \<notin> snd ` set p'"
    using step_no_none[OF Cons.prems, of dumps n w k v] st by simp
  then show ?case
    using Cons.IH[of p' n' w'] kv st
    by (simp add: user_attributes_loop_def)
qed

lemma loop_distinct:
  "distinct (map fst p) \<Longrightarrow> distinct (map fst (fst (user_attributes_loop dumps (p, n, w) m)))"
proof (induction m arbitrary: p n w)
  case Nil
  then show ?case by (simp add: user_attributes_loop_def)
next
  case (Cons kv m)
  obtain k v where kv: "kv = (k, v)" by (cases kv)
  obtain p' n' w' where st: "user_attributes_step dumps (p, n, w) (k, v) = (p', n', w')"
    by (cases "user_attributes_step dumps (p, n, w) (k, v)")
  have "distinct (map fst p')"
    using step_distinct[OF Cons.prems, of dumps n w k v] st by simp
  then show ?case
    using Cons.IH[of p' n' w'] kv st
    by (simp add: user_attributes_loop_def)
qed

text \<open>
  What the encoder does by design with one integer: above \<open>2^63 - 1\<close> it stores the
  decimal string and warns, otherwise it stores the integer.
\<close>

lemma user_attributes_above_max:
  "v > OTLP_MAX_INT_SIZE \<Longrightarrow>
     user_attributes dumps [(k, PyInt v)] = ([(k, PyStr (str_int v))], [int_too_large_warning v])"
  by (simp add: user_attributes_def user_attributes_loop_def)

lemma user_attributes_not_above_max:
  "v \<le> OTLP_MAX_INT_SIZE \<Longrightarrow> user_attributes dumps [(k, PyInt v)] = ([(k, PyInt v)], [])"
  by (simp add: user_attributes_def user_attributes_loop_def)

text \<open>
  C3.  The claim asks for the decimal string and a warning whenever \<open>|v| > 2^63 - 1\<close>.
  The encoder compares \<open>v > OTLP_MAX_INT_SIZE\<close> only: the integer \<open>-2^64\<close>, whose
  absolute value is above the bound, is stored as an integer and no warning is raised.
\<close>

theorem user_attributes_large_negative:
  "\<bar>- 18446744073709551616 :: int\<bar> > 2 ^ 63 - 1
   \<and> user_attributes example_json_dumps [(''k'', PyInt (- 18446744073709551616) :: unit py_value)]
       = ([(''k'', PyInt (- 18446744073709551616))], [])"
  by (simp add: user_attributes_def user_attributes_loop_def OTLP_MAX_INT_SIZE_def)

text \<open>
  C4 (as amended).  For every attribute mapping \<open>m\<close> (a dict: no key twice) that does
  not itself use the reserved null-args key: the encoded result holds no null value
  and no key twice; it has an entry under the null-args key exactly when \<open>m\<close> has a
  null-valued key, and that entry is the tuple of the null-valued keys of \<open>m\<close>, in
  order; and no null-valued key of \<open>m\<close> is a key of the result.
\<close>

theorem user_attributes_null_args:
  assumes "distinct (map fst m)" and "NULL_ARGS_KEY \<notin> fst ` set m"
  shows "PyNone \<notin> snd ` set (fst (user_attributes dumps m))
       \<and> distinct (map fst (fst (user_attributes dumps m)))
       \<and> map_of (fst (user_attributes dumps m)) NULL_ARGS_KEY =
           (if null_keys m = [] then None else Some (PyTuple (null_keys m)))
       \<and> (\<forall>k \<in> set (null_keys m). map_of (fst (user_attributes dumps m)) k = None)"
proof -
  obtain p n w where loop: "user_attributes_loop dumps ([], [], []) m = (p, n, w)"
    by (cases "user_attributes_loop dumps ([], [], []) m")
  have n: "n = null_keys m"
    using loop_null_args[of dumps "[]" "[]" "[]" m] loop by simp
  have keys: "fst ` set p = {k. \<exists>v. (k, v) \<in> set m \<and> v \<noteq> PyNone}"
    using loop_keys[of dumps "[]" "[]" "[]" m] loop by simp
  have nonone: "PyNone \<notin> snd ` set p"
    using loop_no_none[of "[]" dumps "[]" "[]" m] loop by simp
  have dist: "distinct (map fst p)"
    using loop_distinct[of "[]" dumps "[]" "[]" m] loop by simp
  have res: "fst (user_attributes dumps m) =
               (if null_keys m \<noteq> [] then AList.update NULL_ARGS_KEY (PyTuple (null_keys m)) p else p)"
    using loop n by (simp add: user_attributes_def)
  have null_not_key: "NULL_ARGS_KEY \<notin> fst ` set p"
    using keys assms(2) by force
  have absent: "k \<notin> fst ` set p \<and> k \<noteq> NULL_ARGS_KEY" if "k \<in> set (null_keys m)" for k
  proof -
    from that have km: "(k, PyNone) \<in> set m" by (auto simp: null_keys_def)
    have "v = PyNone" if "(k, v) \<in> set m" for v
      using assms(1) km that by (meson eq_key_imp_eq_value)
    then have "k \<notin> fst ` set p" using keys by auto
    moreover have "k \<noteq> NULL_ARGS_KEY" using km assms(2) by force
    ultimately show ?thesis by simp
  qed
  have c1: "PyNone \<notin> snd ` set (fst (user_attributes dumps m))"
    using nonone set_update_subset[of NULL_ARGS_KEY "PyTuple (null_keys m)" p]
    by (auto simp: res)
  have c2: "distinct (map fst (fst (user_attributes dumps m)))"
    using dist by (simp add: res distinct_update)
  have c3: "map_of (fst (user_attributes dumps m)) NULL_ARGS_KEY =
           (if null_keys m = [] then None else Some (PyTuple (null_keys m)))"
    using null_not_key by (simp add: res update_conv' map_of_eq_None_iff)
  have c4: "\<forall>k \<in> set (null_keys m). map_of (fst (user_attributes dumps m)) k = None"
    using absent by (simp add: res map_of_eq_None_iff dom_update)
  show ?thesis using c1 c2 c3 c4 by blast
qed

theorem user_attributes_null_args_witness:
  "fst (user_attributes example_json_dumps
         [(''a'', PyNone), (''b'', PyInt 2), (''c'', PyNone :: unit py_value)]) =
     [(''b'', PyInt 2), (NULL_ARGS_KEY, PyTuple [''a'', ''c''])]
   \<and> map_of (fst (user_attributes example_json_dumps
         [(''a'', PyNone), (''b'', PyInt 2), (''c'', PyNone :: unit py_value)])) NULL_ARGS_KEY
      = Some (PyTuple [''a'', ''c''])"
proof -
  have h1: "distinct (map fst [(''a'', PyNone), (''b'', PyInt 2), (''c'', PyNone :: unit py_value)])"
    by simp
  have h2: "NULL_ARGS_KEY \<notin> fst ` set [(''a'', PyNone), (''b'', PyInt 2), (''c'', PyNone :: unit py_value)]"
    by (simp add: NULL_ARGS_KEY_def)
  show ?thesis
    using user_attributes_null_args[OF h1 h2, of example_json_dumps]
    by (simp add: user_attributes_def user_attributes_loop_def null_keys_def
                  OTLP_MAX_INT_SIZE_def NULL_ARGS_KEY_def)
qed

text \<open>
  The claim as stated fails on a mapping that uses the reserved key: it has no
  null-valued key, and the result has an entry under the null-args key.
\<close>

theorem user_attributes_reserved_key_counterexample:
  "null_keys [(NULL_ARGS_KEY, PyStr ''x'' :: unit py_value)] = []
   \<and> map_of (fst (user_attributes example_json_dumps [(NULL_ARGS_KEY, PyStr ''x'' :: unit py_value)]))
        NULL_ARGS_KEY = Some (PyStr ''x'')"
  by (simp add: user_attributes_def user_attributes_loop_def null_keys_def)

section \<open>Properties of the resilient exporter\<close>

text \<open>
  C1.  For every batch and every primary sink whose export raises, the fallback sink
  is given exactly that batch and the same exception is then raised to the caller;
  with the recording sink as fallback, its record grows by exactly the batch.
\<close>

theorem fallback_on_exception:
  assumes "fst (exporter ps spans) = Inl e"
  shows "FallbackSpanExporter_export exporter fallback (ps, fs) spans =
           (Inl e, (snd (exporter ps spans), snd (fallback fs spans)))
         \<and> FallbackSpanExporter_export exporter TestExporter_export (ps, exported) spans =
           (Inl e, (snd (exporter ps spans), exported @ spans))"
  using assms
  by (cases "exporter ps spans")
     (simp add: FallbackSpanExporter_export_def TestExporter_export_def)

theorem fallback_on_exception_witness:
  "FallbackSpanExporter_export ExceptionExporter_export TestExporter_export ((), []) [TEST_SPAN] =
     (Inl ''Bad, bad exporter'', ((), [TEST_SPAN]))
   \<and> rs_name TEST_SPAN = ''test''
   \<and> rs_context TEST_SPAN = \<lparr>trace_id = 1, span_id = 1, is_remote = False\<rparr>"
proof -
  have h: "fst (ExceptionExporter_export () [TEST_SPAN]) = Inl ''Bad, bad exporter''"
    by (simp add: ExceptionExporter_export_def)
  show ?thesis
    using h fallback_on_exception[where exporter = ExceptionExporter_export and ps = "()"
            and spans = "[TEST_SPAN]" and e = "''Bad, bad exporter''"
            and fallback = TestExporter_export and fs = "[]" and exported = "[]"]
    by (simp add: ExceptionExporter_export_def TestExporter_export_def TEST_SPAN_def)
qed

text \<open>
  C2.  For every batch and every primary sink whose export returns a failure result
  without raising, the fallback sink is given exactly that batch and the call returns
  success; with the recording sink as fallback, its record grows by exactly the batch.
\<close>

theorem fallback_on_failure:
  assumes "fst (exporter ps spans) = Inr FAILURE"
  shows "FallbackSpanExporter_export exporter fallback (ps, fs) spans =
           (Inr SUCCESS, (snd (exporter ps spans), snd (fallback fs spans)))
         \<and> FallbackSpanExporter_export exporter TestExporter_export (ps, exported) spans =
           (Inr SUCCESS, (snd (exporter ps spans), exported @ spans))"
  using assms
  by (cases "exporter ps spans")
     (simp add: FallbackSpanExporter_export_def TestExporter_export_def)

theorem fallback_on_failure_witness:
  "FallbackSpanExporter_export FailureExporter_export TestExporter_export ((), []) [TEST_SPAN] =
     (Inr SUCCESS, ((), [TEST_SPAN]))
   \<and> rs_name TEST_SPAN = ''test''"
proof -
  have h: "fst (FailureExporter_export () [TEST_SPAN]) = Inr FAILURE"
    by (simp add: FailureExporter_export_def)
  show ?thesis
    using h fallback_on_failure[where exporter = FailureExporter_export and ps = "()"
            and spans = "[TEST_SPAN]" and fallback = TestExporter_export and fs = "[]"
            and exported = "[]"]
    by (simp add: FailureExporter_export_def TestExporter_export_def TEST_SPAN_def)
qed

section \<open>Properties of span exit and of the span record\<close>

text \<open>
  C6 (as amended).  When \<^verbatim>\<open>_exit_span\<close> runs on a span that is still recording: an
  exception value that is an \<^verbatim>\<open>Exception\<close> sets the status to error with the
  description \<open>Kind: message\<close> and adds one exception event, marked as escaped; an
  exception value that is only a \<^verbatim>\<open>BaseException\<close> (the cancellation class) is not
  captured and the status is set to OK.  On a span that no longer records, nothing
  changes.
\<close>

theorem exit_span_recording:
  "(is_recording sp \<and> exc_is_Exception e \<longrightarrow>
      sp_status (exit_span jd sp (Some kind) (Some e))
        = Status ERROR (Some (kind @ '': '' @ exc_str e))
      \<and> (\<exists>attrs. sp_events (exit_span jd sp (Some kind) (Some e))
            = sp_events sp @ [\<lparr>ev_exception = e, ev_attributes = attrs, ev_escaped = True\<rparr>]))
   \<and> (is_recording sp \<and> \<not> exc_is_Exception e \<longrightarrow>
        exit_span jd sp (Some kind) (Some e) = sp\<lparr>sp_status := OK_STATUS\<rparr>)
   \<and> (\<not> is_recording sp \<longrightarrow> exit_span jd sp exc_type exc_value = sp)"
  by (auto simp: exit_span_def set_status_def record_exception_def set_attribute_def
                 is_recording_def Let_def split: option.splits)

theorem exit_span_recording_witness:
  "sp_status (exit_span example_traceback_dumps live_span (Some ''ValueError'') (Some boom))
     = Status ERROR (Some ''ValueError: boom'')
   \<and> length (sp_events (exit_span example_traceback_dumps live_span (Some ''ValueError'') (Some boom))) = 1
   \<and> sp_status (exit_span example_traceback_dumps live_span (Some ''CancelledError'') (Some cancelled))
     = Status OK None
   \<and> exit_span example_traceback_dumps ended_span (Some ''ValueError'') (Some boom) = ended_span"
proof -
  have h1: "is_recording live_span \<and> exc_is_Exception boom"
    by (simp add: live_span_def start_span_def is_recording_def boom_def)
  have h2: "is_recording live_span \<and> \<not> exc_is_Exception cancelled"
    by (simp add: live_span_def start_span_def is_recording_def cancelled_def)
  have h3: "\<not> is_recording ended_span"
    by (simp add: ended_span_def start_span_def end_span_def is_recording_def)
  show ?thesis
    using h1 h2 h3
      exit_span_recording[of live_span boom example_traceback_dumps "''ValueError''"]
      exit_span_recording[of live_span cancelled example_traceback_dumps "''CancelledError''"]
      exit_span_recording[of ended_span boom example_traceback_dumps "''ValueError''"
                             "Some ''ValueError''" "Some boom"]
    by (auto simp: boom_def OK_STATUS_def live_span_def start_span_def)
qed

text \<open>
  The claim as stated fails on a span that was ended inside its scope: the scope then
  exits with \<^verbatim>\<open>ValueError('boom')\<close>, and the status stays unset and no event is
  recorded.
\<close>

theorem exit_span_ended_counterexample:
  "exc_is_Exception boom
   \<and> sp_status (exit_span example_traceback_dumps ended_span (Some ''ValueError'') (Some boom))
       = Status UNSET None
   \<and> sp_events (exit_span example_traceback_dumps ended_span (Some ''ValueError'') (Some boom)) = []"
  by (simp add: exit_span_def ended_span_def start_span_def end_span_def is_recording_def boom_def)

text \<open>
  C7.  On a \<^verbatim>\<open>LogfireSpan\<close> that has been started, \<^verbatim>\<open>end()\<close> succeeds and leaves the
  underlying span not recording, and a second \<^verbatim>\<open>end()\<close>, at any later time, succeeds
  and changes nothing; on a \<^verbatim>\<open>LogfireSpan\<close> that has never been started,
  \<^verbatim>\<open>end()\<close> raises \<^verbatim>\<open>RuntimeError\<close>.
\<close>

theorem LogfireSpan_end_idempotent:
  "(ls_span self \<noteq> None \<longrightarrow>
      (\<exists>s1 sp1. LogfireSpan_end t1 self = Inr s1 \<and> ls_span s1 = Some sp1 \<and> \<not> is_recording sp1
         \<and> LogfireSpan_end t2 s1 = Inr s1))
   \<and> (ls_span self = None \<longrightarrow>
        LogfireSpan_end t1 self = Inl (RuntimeError ''Span has not been started''))"
  by (auto simp: LogfireSpan_end_def end_span_def is_recording_def split: option.splits)

theorem LogfireSpan_end_idempotent_witness:
  "LogfireSpan_end 7 (LogfireSpan_enter 5 1 example_span)
     = Inr ((LogfireSpan_enter 5 1 example_span)
              \<lparr>ls_span := Some ((start_span ''work'' [] 5)\<lparr>sp_end_time := Some 7\<rparr>)\<rparr>)
   \<and> LogfireSpan_end 9 ((LogfireSpan_enter 5 1 example_span)
              \<lparr>ls_span := Some ((start_span ''work'' [] 5)\<lparr>sp_end_time := Some 7\<rparr>)\<rparr>)
     = Inr ((LogfireSpan_enter 5 1 example_span)
              \<lparr>ls_span := Some ((start_span ''work'' [] 5)\<lparr>sp_end_time := Some 7\<rparr>)\<rparr>)
   \<and> LogfireSpan_end 7 example_span = Inl (RuntimeError ''Span has not been started'')"
proof -
  have h1: "ls_span (LogfireSpan_enter 5 1 example_span) \<noteq> None"
    by (simp add: LogfireSpan_enter_def example_span_def LogfireSpan_init_def)
  have h2: "ls_span example_span = None"
    by (simp add: example_span_def LogfireSpan_init_def)
  show ?thesis
    using h1 h2
      LogfireSpan_end_idempotent[of "LogfireSpan_enter 5 1 example_span" 7 9]
      LogfireSpan_end_idempotent[of example_span 7 9]
    by (auto simp: LogfireSpan_end_def LogfireSpan_enter_def example_span_def
                   LogfireSpan_init_def start_span_def end_span_def is_recording_def)
qed

section \<open>Properties of the public calls\<close>

lemma any_underscore_key_iff:
  "any_underscore_key attributes \<longleftrightarrow> (\<exists>k \<in> fst ` set attributes. startswith k ''_'')"
  by (force simp: any_underscore_key_def list_ex_iff)

text \<open>
  C8 (as amended).  \<^verbatim>\<open>Logfire.span\<close> and the level methods \<^verbatim>\<open>trace\<close>,
  \<^verbatim>\<open>debug\<close>, \<^verbatim>\<open>info\<close>, \<^verbatim>\<open>notice\<close>, \<^verbatim>\<open>warn\<close>, \<^verbatim>\<open>error\<close> and \<^verbatim>\<open>fatal\<close>,
  given an attribute key that begins with an underscore, raise \<^verbatim>\<open>ValueError\<close> and
  leave the world as it was (no warning, no span); \<^verbatim>\<open>with_trace_sample_rate\<close>
  raises \<^verbatim>\<open>ValueError\<close> for every sample rate above 1 or below 0, and accepts every
  rate in the closed range from 0 to 1.
\<close>

theorem usage_errors_fail_fast:
  "((\<exists>k \<in> fst ` set attributes. startswith k ''_'') \<longrightarrow>
      Logfire_span X self msg_template span_name attributes w = (Inl underscore_error, w)
      \<and> Logfire_trace X self msg_template attributes w = (Inl underscore_error, w)
      \<and> Logfire_debug X self msg_template attributes w = (Inl underscore_error, w)
      \<and> Logfire_info X self msg_template attributes w = (Inl underscore_error, w)
      \<and> Logfire_notice X self msg_template attributes w = (Inl underscore_error, w)
      \<and> Logfire_warn X self msg_template attributes w = (Inl underscore_error, w)
      \<and> Logfire_error X self msg_template attributes w = (Inl underscore_error, w)
      \<and> Logfire_fatal X self msg_template attributes w = (Inl underscore_error, w))
   \<and> (sample_rate > 1 \<or> sample_rate < 0 \<longrightarrow>
        Logfire_with_trace_sample_rate self sample_rate
          = Inl (ValueError ''sample_rate must be between 0 and 1''))
   \<and> (0 \<le> sample_rate \<and> sample_rate \<le> 1 \<longrightarrow>
        Logfire_with_trace_sample_rate self sample_rate
          = Inr \<lparr>self_tags = self_tags self, self_sample_rate = Some sample_rate\<rparr>)"
proof -
  have keys: "Logfire_span X self msg_template span_name attributes w = (Inl underscore_error, w)
      \<and> Logfire_trace X self msg_template attributes w = (Inl underscore_error, w)
      \<and> Logfire_debug X self msg_template attributes w = (Inl underscore_error, w)
      \<and> Logfire_info X self msg_template attributes w = (Inl underscore_error, w)
      \<and> Logfire_notice X self msg_template attributes w = (Inl underscore_error, w)
      \<and> Logfire_warn X self msg_template attributes w = (Inl underscore_error, w)
      \<and> Logfire_error X self msg_template attributes w = (Inl underscore_error, w)
      \<and> Logfire_fatal X self msg_template attributes w = (Inl underscore_error, w)"
    if "\<exists>k \<in> fst ` set attributes. startswith k ''_''"
  proof -
    from that have "any_underscore_key attributes"
      by (simp only: any_underscore_key_iff)
    then show ?thesis
      by (simp add: Logfire_span_def Logfire_trace_def Logfire_debug_def Logfire_info_def
                    Logfire_notice_def Logfire_warn_def Logfire_error_def Logfire_fatal_def)
  qed
  have rate: "(sample_rate > 1 \<or> sample_rate < 0 \<longrightarrow>
        Logfire_with_trace_sample_rate self sample_rate
          = Inl (ValueError ''sample_rate must be between 0 and 1''))
   \<and> (0 \<le> sample_rate \<and> sample_rate \<le> 1 \<longrightarrow>
        Logfire_with_trace_sample_rate self sample_rate
          = Inr \<lparr>self_tags = self_tags self, self_sample_rate = Some sample_rate\<rparr>)"
    by (auto simp: Logfire_with_trace_sample_rate_def)
  show ?thesis using keys rate by blast
qed

theorem usage_errors_fail_fast_witness:
  "Logfire_span example_collaborators plain_logfire ''hello'' None [(''_x'', PyInt 1)] empty_world
     = (Inl underscore_error, empty_world)
   \<and> Logfire_info example_collaborators plain_logfire ''hello'' [(''_x'', PyInt 1)] empty_world
     = (Inl underscore_error, empty_world)
   \<and> Logfire_with_trace_sample_rate plain_logfire (3 / 2)
     = Inl (ValueError ''sample_rate must be between 0 and 1'')
   \<and> Logfire_with_trace_sample_rate plain_logfire (1 / 2)
     = Inr \<lparr>self_tags = [], self_sample_rate = Some (1 / 2)\<rparr>"
proof -
  have h1: "\<exists>k \<in> fst ` set [(''_x'', PyInt 1 :: unit py_value)]. startswith k ''_''"
    by (simp add: startswith_def)
  have h2: "(3 / 2 :: real) > 1 \<or> (3 / 2 :: real) < 0"
    by simp
  have h3: "0 \<le> (1 / 2 :: real) \<and> (1 / 2 :: real) \<le> 1"
    by simp
  show ?thesis
    using h1 h2 h3
      usage_errors_fail_fast[of "[(''_x'', PyInt 1)]" example_collaborators plain_logfire
        "''hello''" None empty_world "3 / 2"]
      usage_errors_fail_fast[of "[(''_x'', PyInt 1)]" example_collaborators plain_logfire
        "''hello''" None empty_world "1 / 2"]
    by (simp add: plain_logfire_def)
qed

text \<open>
  The claim as stated fails twice: the sample rate 0 is outside \<open>(0, 1]\<close> and is
  accepted, and the public \<^verbatim>\<open>log\<close> call does not check attribute keys: with the
  key \<open>_x\<close> it returns normally and emits its span.
\<close>

theorem usage_errors_counterexample:
  "\<not> (0 < (0 :: real))
   \<and> Logfire_with_trace_sample_rate plain_logfire 0
       = Inr \<lparr>self_tags = [], self_sample_rate = Some 0\<rparr>
   \<and> startswith ''_x'' ''_''
   \<and> fst (Logfire_log example_collaborators plain_logfire ''info'' ''hello''
            [(''_x'', PyInt 1)] 0 empty_world) = Inr ()
   \<and> map sp_attributes
        (w_spans (snd (Logfire_log example_collaborators plain_logfire ''info'' ''hello''
            [(''_x'', PyInt 1)] 0 empty_world)))
       = [[(ATTRIBUTES_SPAN_TYPE_KEY, PyStr ''log''),
           (ATTRIBUTES_LOG_LEVEL_NAME_KEY, PyStr ''info''),
           (ATTRIBUTES_LOG_LEVEL_NUM_KEY, PyInt 9),
           (ATTRIBUTES_MESSAGE_TEMPLATE_KEY, PyStr ''hello''),
           (ATTRIBUTES_MESSAGE_KEY, PyStr ''hello''),
           (''_x'', PyInt 1)]]"
  by (simp add: Logfire_with_trace_sample_rate_def plain_logfire_def startswith_def
        Logfire_log_def example_collaborators_def empty_world_def key_defs
        dict_merge_def merge_tags_into_attributes_def user_attributes_def
        user_attributes_loop_def start_span_def set_status_def end_span_def is_recording_def
        OK_STATUS_def OTLP_MAX_INT_SIZE_def Let_def)

text \<open>
  C9.  The claim says that a resolved sample rate of 1 is never emitted and that the
  instance-level rate wins over an inline one.  With the instance-level rate 1 and a
  rate inline in the attributes, \<^verbatim>\<open>log\<close> and \<^verbatim>\<open>_span\<close> leave the inline entry in
  place (it is popped only when there is no instance-level rate): the emitted
  attributes carry the sample rate 1, or the inline 0.5 although the resolved rate is 1.
\<close>

theorem sample_rate_inline_kept:
  "map sp_attributes
     (w_spans (snd (Logfire_log example_collaborators unit_rate_logfire ''info'' ''hello''
                      [(ATTRIBUTES_SAMPLE_RATE_KEY, PyInt 1)] 0 empty_world)))
     = [[(ATTRIBUTES_SPAN_TYPE_KEY, PyStr ''log''),
         (ATTRIBUTES_LOG_LEVEL_NAME_KEY, PyStr ''info''),
         (ATTRIBUTES_LOG_LEVEL_NUM_KEY, PyInt 9),
         (ATTRIBUTES_MESSAGE_TEMPLATE_KEY, PyStr ''hello''),
         (ATTRIBUTES_MESSAGE_KEY, PyStr ''hello''),
         (ATTRIBUTES_SAMPLE_RATE_KEY, PyInt 1)]]
   \<and> map sp_attributes
     (w_spans (snd (Logfire_log example_collaborators unit_rate_logfire ''info'' ''hello''
                      [(ATTRIBUTES_SAMPLE_RATE_KEY, PyFloat (1 / 2))] 0 empty_world)))
     = [[(ATTRIBUTES_SPAN_TYPE_KEY, PyStr ''log''),
         (ATTRIBUTES_LOG_LEVEL_NAME_KEY, PyStr ''info''),
         (ATTRIBUTES_LOG_LEVEL_NUM_KEY, PyInt 9),
         (ATTRIBUTES_MESSAGE_TEMPLATE_KEY, PyStr ''hello''),
         (ATTRIBUTES_MESSAGE_KEY, PyStr ''hello''),
         (ATTRIBUTES_SAMPLE_RATE_KEY, PyFloat (1 / 2))]]
   \<and> map_sum id ls_otlp_attributes
       (fst (Logfire_private_span example_collaborators unit_rate_logfire ''hello''
              [(ATTRIBUTES_SAMPLE_RATE_KEY, PyInt 1)] None 3 False empty_world))
     = Inr [(ATTRIBUTES_SAMPLE_RATE_KEY, PyInt 1),
            (ATTRIBUTES_MESSAGE_TEMPLATE_KEY, PyStr ''hello''),
            (ATTRIBUTES_MESSAGE_KEY, PyStr ''hello'')]"
  by (simp add: unit_rate_logfire_def
        Logfire_log_def Logfire_private_span_def LogfireSpan_init_def
        example_collaborators_def empty_world_def key_defs
        dict_merge_def merge_tags_into_attributes_def user_attributes_def
        user_attributes_loop_def start_span_def set_status_def end_span_def is_recording_def
        OK_STATUS_def OTLP_MAX_INT_SIZE_def Let_def)

text \<open>
  What the two methods do by design when the attributes carry no inline rate: the
  instance-level rate is emitted unless it is 1.
\<close>

lemma log_sample_rate_no_inline:
  "map sp_attributes
     (w_spans (snd (Logfire_log example_collaborators unit_rate_logfire ''info'' ''hello''
                      [] 0 empty_world)))
     = [[(ATTRIBUTES_SPAN_TYPE_KEY, PyStr ''log''),
         (ATTRIBUTES_LOG_LEVEL_NAME_KEY, PyStr ''info''),
         (ATTRIBUTES_LOG_LEVEL_NUM_KEY, PyInt 9),
         (ATTRIBUTES_MESSAGE_TEMPLATE_KEY, PyStr ''hello''),
         (ATTRIBUTES_MESSAGE_KEY, PyStr ''hello'')]]
   \<and> map sp_attributes
     (w_spans (snd (Logfire_log example_collaborators
                      \<lparr>self_tags = [], self_sample_rate = Some (1 / 2)\<rparr> ''info'' ''hello''
                      [] 0 empty_world)))
     = [[(ATTRIBUTES_SPAN_TYPE_KEY, PyStr ''log''),
         (ATTRIBUTES_LOG_LEVEL_NAME_KEY, PyStr ''info''),
         (ATTRIBUTES_LOG_LEVEL_NUM_KEY, PyInt 9),
         (ATTRIBUTES_MESSAGE_TEMPLATE_KEY, PyStr ''hello''),
         (ATTRIBUTES_MESSAGE_KEY, PyStr ''hello''),
         (ATTRIBUTES_SAMPLE_RATE_KEY, PyFloat (1 / 2))]]"
  by (simp add: unit_rate_logfire_def
        Logfire_log_def
        example_collaborators_def empty_world_def key_defs
        dict_merge_def merge_tags_into_attributes_def user_attributes_def
        user_attributes_loop_def start_span_def set_status_def end_span_def is_recording_def
        OK_STATUS_def OTLP_MAX_INT_SIZE_def Let_def)

section \<open>Properties of the log call\<close>

lemma dict_merge_keys: "fst ` set (dict_merge a b) = fst ` set a \<union> fst ` set b"
proof (induction b arbitrary: a)
  case Nil
  then show ?case by (simp add: dict_merge_def)
next
  case (Cons kv b)
  obtain k v where kv: "kv = (k, v)" by (cases kv)
  have step: "dict_merge a (kv # b) = dict_merge (AList.update k v a) b"
    by (simp add: dict_merge_def kv)
  have "fst ` set (dict_merge a (kv # b)) = ({k} \<union> fst ` set a) \<union> fst ` set b"
    unfolding step Cons.IH[of "AList.update k v a"] dom_update ..
  then show ?case by (auto simp: kv)
qed

lemma map_of_dict_merge_other:
  "k \<notin> fst ` set b \<Longrightarrow> map_of (dict_merge a b) k = map_of a k"
  by (induction b arbitrary: a) (auto simp: dict_merge_def update_conv')

lemma user_attributes_keys:
  "fst ` set (fst (user_attributes dumps m)) \<subseteq> insert NULL_ARGS_KEY (fst ` set m)"
proof -
  obtain p n w where loop: "user_attributes_loop dumps ([], [], []) m = (p, n, w)"
    by (cases "user_attributes_loop dumps ([], [], []) m")
  have "fst ` set p \<subseteq> fst ` set m"
    using loop_keys[of dumps "[]" "[]" "[]" m] loop by force
  then show ?thesis
    using loop by (auto simp: user_attributes_def dom_update)
qed

text \<open>
  The attributes a log span is started with, once the level attributes are in place:
  the steps of \<^verbatim>\<open>Logfire.log\<close> after the dict literal keep every key other than the
  JSON-schema, tags and sample-rate keys as it is.
\<close>

lemma log_tail_keeps:
  assumes "k \<noteq> ATTRIBUTES_JSON_SCHEMA_KEY" and "k \<noteq> ATTRIBUTES_TAGS_KEY"
      and "k \<noteq> ATTRIBUTES_SAMPLE_RATE_KEY"
  shows "map_of (AList.update ATTRIBUTES_JSON_SCHEMA_KEY v al) k = map_of al k"
    and "map_of (AList.update ATTRIBUTES_TAGS_KEY v al) k = map_of al k"
    and "map_of (AList.update ATTRIBUTES_SAMPLE_RATE_KEY v al) k = map_of al k"
    and "map_of (AList.delete ATTRIBUTES_SAMPLE_RATE_KEY al) k = map_of al k"
  using assms by (simp_all add: update_conv' delete_conv')

text \<open>
  C10 (as amended).  For every call of \<^verbatim>\<open>Logfire.log\<close> with a level name outside
  \<^verbatim>\<open>LEVEL_NUMBERS\<close> (a table that knows \<open>error\<close>), whose stack information and
  attributes do not use the reserved level-name and level-number keys and whose tags
  attribute, if there is one, is a list of strings: the call returns normally, the
  warning \<open>Invalid log level\<close> is raised, and exactly one span is emitted, ended,
  with status OK, level name \<open>error\<close> and the level number of \<open>error\<close>.
\<close>

theorem log_invalid_level:
  assumes unknown: "map_of (LEVEL_NUMBERS X) level = None"
      and error_known: "map_of (LEVEL_NUMBERS X) ''error'' = Some n"
      and tags: "map_of (dict_merge (get_caller_stack_info X (stack_offset + 2)) attributes)
                   ATTRIBUTES_TAGS_KEY = map_option PyList a"
      and name_free: "ATTRIBUTES_LOG_LEVEL_NAME_KEY
                        \<notin> fst ` set (get_caller_stack_info X (stack_offset + 2)) \<union> fst ` set attributes"
      and num_free: "ATTRIBUTES_LOG_LEVEL_NUM_KEY
                        \<notin> fst ` set (get_caller_stack_info X (stack_offset + 2)) \<union> fst ` set attributes"
  shows "\<exists>sp ws.
           fst (Logfire_log X self level msg_template attributes stack_offset w) = Inr ()
         \<and> w_warnings (snd (Logfire_log X self level msg_template attributes stack_offset w))
             = w_warnings w @ [''Invalid log level''] @ ws
         \<and> w_spans (snd (Logfire_log X self level msg_template attributes stack_offset w))
             = w_spans w @ [sp]
         \<and> map_of (sp_attributes sp) ATTRIBUTES_LOG_LEVEL_NAME_KEY = Some (PyStr ''error'')
         \<and> map_of (sp_attributes sp) ATTRIBUTES_LOG_LEVEL_NUM_KEY = Some (PyInt n)
         \<and> sp_status sp = OK_STATUS
         \<and> sp_end_time sp = Some (ns_timestamp_generator X)"
proof -
  define M where "M = dict_merge (get_caller_stack_info X (stack_offset + 2)) attributes"
  define M' where "M' = filter (\<lambda>(k, v). k \<noteq> ATTRIBUTES_TAGS_KEY) M"
  define T where "T = (if tags_concat a (self_tags self) = [] then None
                       else Some (uniquify_sequence (tags_concat a (self_tags self))))"
  have merge: "merge_tags_into_attributes M (self_tags self) = Inr (T, M')"
    using merge_tags_into_attributes_result[OF tags, of "self_tags self"]
    by (simp add: M_def M'_def T_def)
  obtain otlp0 ws where ua: "user_attributes (logfire_json_dumps X) M' = (otlp0, ws)"
    by (cases "user_attributes (logfire_json_dumps X) M'")
  have keysM': "fst ` set M' \<subseteq> fst ` set (get_caller_stack_info X (stack_offset + 2)) \<union> fst ` set attributes"
  proof -
    have "fst ` set M' \<subseteq> fst ` set M" by (auto simp: M'_def)
    then show ?thesis unfolding M_def dict_merge_keys .
  qed
  have keys0: "fst ` set otlp0 \<subseteq> insert NULL_ARGS_KEY (fst ` set M')"
    using user_attributes_keys[of "logfire_json_dumps X" M'] ua by simp
  have name0: "ATTRIBUTES_LOG_LEVEL_NAME_KEY \<notin> fst ` set otlp0"
  proof
    assume "ATTRIBUTES_LOG_LEVEL_NAME_KEY \<in> fst ` set otlp0"
    then have "ATTRIBUTES_LOG_LEVEL_NAME_KEY \<in> insert NULL_ARGS_KEY (fst ` set M')"
      using keys0 by blast
    moreover have "ATTRIBUTES_LOG_LEVEL_NAME_KEY \<noteq> NULL_ARGS_KEY" by (simp add: key_defs)
    ultimately show False using keysM' name_free by blast
  qed
  have num0: "ATTRIBUTES_LOG_LEVEL_NUM_KEY \<notin> fst ` set otlp0"
  proof
    assume "ATTRIBUTES_LOG_LEVEL_NUM_KEY \<in> fst ` set otlp0"
    then have "ATTRIBUTES_LOG_LEVEL_NUM_KEY \<in> insert NULL_ARGS_KEY (fst ` set M')"
      using keys0 by blast
    moreover have "ATTRIBUTES_LOG_LEVEL_NUM_KEY \<noteq> NULL_ARGS_KEY" by (simp add: key_defs)
    ultimately show False using keysM' num_free by blast
  qed
  define o1 where "o1 = dict_merge
                        [(ATTRIBUTES_SPAN_TYPE_KEY, PyStr ''log''),
                         (ATTRIBUTES_LOG_LEVEL_NAME_KEY, PyStr ''error''),
                         (ATTRIBUTES_LOG_LEVEL_NUM_KEY, PyInt n),
                         (ATTRIBUTES_MESSAGE_TEMPLATE_KEY, PyStr msg_template),
                         (ATTRIBUTES_MESSAGE_KEY, PyStr (logfire_format X msg_template M'))]
                        otlp0"
  have o1_name: "map_of o1 ATTRIBUTES_LOG_LEVEL_NAME_KEY = Some (PyStr ''error'')"
    unfolding o1_def map_of_dict_merge_other[OF name0] by (simp add: key_defs)
  have o1_num: "map_of o1 ATTRIBUTES_LOG_LEVEL_NUM_KEY = Some (PyInt n)"
    unfolding o1_def map_of_dict_merge_other[OF num0] by (simp add: key_defs)
  have name_other: "ATTRIBUTES_LOG_LEVEL_NAME_KEY \<noteq> ATTRIBUTES_JSON_SCHEMA_KEY"
       "ATTRIBUTES_LOG_LEVEL_NAME_KEY \<noteq> ATTRIBUTES_TAGS_KEY"
       "ATTRIBUTES_LOG_LEVEL_NAME_KEY \<noteq> ATTRIBUTES_SAMPLE_RATE_KEY"
    by (simp_all add: key_defs)
  have num_other: "ATTRIBUTES_LOG_LEVEL_NUM_KEY \<noteq> ATTRIBUTES_JSON_SCHEMA_KEY"
       "ATTRIBUTES_LOG_LEVEL_NUM_KEY \<noteq> ATTRIBUTES_TAGS_KEY"
       "ATTRIBUTES_LOG_LEVEL_NUM_KEY \<noteq> ATTRIBUTES_SAMPLE_RATE_KEY"
    by (simp_all add: key_defs)
  note keep = log_tail_keeps[OF name_other] log_tail_keeps[OF num_other]
  have call: "Logfire_log X self level msg_template attributes stack_offset w =
     (let otlp_attributes = o1;
          otlp_attributes =
            (case logfire_json_schema X attributes of
               None \<Rightarrow> otlp_attributes
             | Some attributes_json_schema \<Rightarrow>
                 (if attributes_json_schema \<noteq> []
                  then AList.update ATTRIBUTES_JSON_SCHEMA_KEY
                         (PyStr attributes_json_schema) otlp_attributes
                  else otlp_attributes));
          otlp_attributes =
            (case T of
               None \<Rightarrow> otlp_attributes
             | Some ts \<Rightarrow>
                 (if ts \<noteq> []
                  then AList.update ATTRIBUTES_TAGS_KEY (PyList ts) otlp_attributes
                  else otlp_attributes));
          (sample_rate, otlp_attributes) =
            (case self_sample_rate self of
               Some r \<Rightarrow> (Some (PyFloat r), otlp_attributes)
             | None \<Rightarrow> (map_of otlp_attributes ATTRIBUTES_SAMPLE_RATE_KEY,
                        AList.delete ATTRIBUTES_SAMPLE_RATE_KEY otlp_attributes));
          otlp_attributes =
            (case sample_rate of
               None \<Rightarrow> otlp_attributes
             | Some r \<Rightarrow>
                 (if \<not> py_eq_1 r
                  then AList.update ATTRIBUTES_SAMPLE_RATE_KEY r otlp_attributes
                  else otlp_attributes))
      in (Inr (),
          w\<lparr>w_warnings := w_warnings w @ [''Invalid log level''] @ ws,
            w_spans := w_spans w
               @ [end_span (ns_timestamp_generator X)
                    (set_status OK_STATUS
                       (start_span (logfire_format X msg_template M') otlp_attributes
                          (ns_timestamp_generator X)))]\<rparr>))"
    using unknown error_known merge ua
    by (simp add: Logfire_log_def Let_def M_def[symmetric] o1_def split: prod.splits)
  show ?thesis
    unfolding call
    using o1_name o1_num
    by (auto simp: Let_def keep start_span_def set_status_def end_span_def is_recording_def
             split: option.splits prod.splits)
qed

theorem log_invalid_level_witness:
  "fst (Logfire_log example_collaborators plain_logfire ''bogus'' ''hello''
          [(''a'', PyInt 1)] 0 empty_world) = Inr ()
   \<and> w_warnings (snd (Logfire_log example_collaborators plain_logfire ''bogus'' ''hello''
          [(''a'', PyInt 1)] 0 empty_world)) = [''Invalid log level'']
   \<and> map sp_attributes
        (w_spans (snd (Logfire_log example_collaborators plain_logfire ''bogus'' ''hello''
          [(''a'', PyInt 1)] 0 empty_world)))
       = [[(ATTRIBUTES_SPAN_TYPE_KEY, PyStr ''log''),
           (ATTRIBUTES_LOG_LEVEL_NAME_KEY, PyStr ''error''),
           (ATTRIBUTES_LOG_LEVEL_NUM_KEY, PyInt 17),
           (ATTRIBUTES_MESSAGE_TEMPLATE_KEY, PyStr ''hello''),
           (ATTRIBUTES_MESSAGE_KEY, PyStr ''hello''),
           (''a'', PyInt 1)]]"
proof -
  have h1: "map_of (LEVEL_NUMBERS example_collaborators) ''bogus'' = None"
    by (simp add: example_collaborators_def)
  have h2: "map_of (LEVEL_NUMBERS example_collaborators) ''error'' = Some 17"
    by (simp add: example_collaborators_def)
  have h3: "map_of (dict_merge (get_caller_stack_info example_collaborators (0 + 2))
                      [(''a'', PyInt 1)]) ATTRIBUTES_TAGS_KEY = map_option PyList None"
    by (simp add: example_collaborators_def dict_merge_def key_defs)
  have h4: "ATTRIBUTES_LOG_LEVEL_NAME_KEY
              \<notin> fst ` set (get_caller_stack_info example_collaborators (0 + 2))
                \<union> fst ` set [(''a'', PyInt 1 :: unit py_value)]"
    by (simp add: example_collaborators_def key_defs)
  have h5: "ATTRIBUTES_LOG_LEVEL_NUM_KEY
              \<notin> fst ` set (get_caller_stack_info example_collaborators (0 + 2))
                \<union> fst ` set [(''a'', PyInt 1 :: unit py_value)]"
    by (simp add: example_collaborators_def key_defs)
  show ?thesis
    using log_invalid_level[OF h1 h2 h3 h4 h5, of plain_logfire "''hello''" empty_world]
    by (simp add: plain_logfire_def
        Logfire_log_def example_collaborators_def empty_world_def key_defs
        dict_merge_def merge_tags_into_attributes_def user_attributes_def
        user_attributes_loop_def start_span_def set_status_def end_span_def is_recording_def
        OK_STATUS_def OTLP_MAX_INT_SIZE_def Let_def)
qed

text \<open>
  The claim as stated fails on a call whose attributes carry the reserved level-name
  key: the dict literal of \<^verbatim>\<open>Logfire.log\<close> puts the user's attributes last, so the
  level is unknown and the record is emitted with the level name \<open>info\<close>, not
  \<open>error\<close>.  It also fails on a call whose tags attribute is not a list: the
  concatenation with the instance tags raises \<^verbatim>\<open>TypeError\<close> after the warning, and
  no record is emitted.
\<close>

theorem log_invalid_level_counterexample:
  "map_of (LEVEL_NUMBERS example_collaborators) ''bogus'' = None
   \<and> map sp_attributes
        (w_spans (snd (Logfire_log example_collaborators plain_logfire ''bogus'' ''hello''
          [(ATTRIBUTES_LOG_LEVEL_NAME_KEY, PyStr ''info'')] 0 empty_world)))
       = [[(ATTRIBUTES_SPAN_TYPE_KEY, PyStr ''log''),
           (ATTRIBUTES_LOG_LEVEL_NAME_KEY, PyStr ''info''),
           (ATTRIBUTES_LOG_LEVEL_NUM_KEY, PyInt 17),
           (ATTRIBUTES_MESSAGE_TEMPLATE_KEY, PyStr ''hello''),
           (ATTRIBUTES_MESSAGE_KEY, PyStr ''hello'')]]
   \<and> Logfire_log example_collaborators plain_logfire ''bogus'' ''hello''
          [(ATTRIBUTES_TAGS_KEY, PyInt 5)] 0 empty_world
       = (Inl TypeError, \<lparr>w_warnings = [''Invalid log level''], w_spans = []\<rparr>)"
  by (simp add: plain_logfire_def
        Logfire_log_def example_collaborators_def empty_world_def key_defs
        dict_merge_def merge_tags_into_attributes_def user_attributes_def
        user_attributes_loop_def start_span_def set_status_def end_span_def is_recording_def
        OK_STATUS_def OTLP_MAX_INT_SIZE_def Let_def)

end
